theory Spec2Isabelle
  imports Main "HOL-Library.Sublist"
begin

section \<open>Python values, exceptions and string formatting\<close>

text \<open>
  The program is one Python module, \<^verbatim>\<open>app.py\<close>: a Flask handler \<^verbatim>\<open>generate\<close> that reads a
  JSON body and calls \<^verbatim>\<open>generate_files\<close>, which writes text files built with f-strings.
  Every exception the module can raise from its own code is a constructor of \<open>py_error\<close>;
  a function that may raise returns \<open>py_error + 'a\<close> or, when it also changes the file
  system, a pair of \<open>py_error option\<close> and the file system it leaves behind.
\<close>

datatype py_error =
    KeyError string
  | NameError string
  | TypeError
  | FileNotFoundError
  | FileExistsError
  | NotADirectoryError
  | IsADirectoryError

text \<open>
  The JSON values a field of the request body can hold, as far as the f-strings format
  them: \<^verbatim>\<open>null\<close> (also what \<^verbatim>\<open>data.get\<close> gives for a missing key), an integer, a string.
\<close>

datatype pyval = PNone | PInt int | PStr string

abbreviation (input) nl :: char where "nl \<equiv> CHR 0x0A"
abbreviation (input) bs :: string where "bs \<equiv> [CHR 0x5C]"

function digits_of :: "nat \<Rightarrow> string" where
  "digits_of n =
     (if n < 10 then [''0123456789'' ! n]
      else digits_of (n div 10) @ [''0123456789'' ! (n mod 10)])"
  by pat_completeness auto
termination
  by (relation "measure id") auto

declare digits_of.simps [simp del]

text \<open>\<^verbatim>\<open>f"{v}"\<close>: Python's \<^verbatim>\<open>str\<close> of the value.\<close>

fun py_format :: "pyval \<Rightarrow> string" where
  "py_format PNone = ''None''"
| "py_format (PInt i) = (if i < 0 then ''-'' @ digits_of (nat (- i)) else digits_of (nat i))"
| "py_format (PStr s) = s"

text \<open>
  An entry of \<^verbatim>\<open>envs\<close> is a JSON object with string values, kept as an association list;
  \<^verbatim>\<open>e['name']\<close> raises \<^verbatim>\<open>KeyError\<close> when the key is absent.
\<close>

type_synonym env = "(string \<times> string) list"

definition py_getitem :: "env \<Rightarrow> string \<Rightarrow> py_error + string" where
  "py_getitem e k = (case map_of e k of None \<Rightarrow> Inl (KeyError k) | Some v \<Rightarrow> Inr v)"

text \<open>
  \<^verbatim>\<open>[... e[k] ... for e in envs]\<close>: the values in order; the first entry without the key
  raises.
\<close>

fun lookup_all :: "string \<Rightarrow> env list \<Rightarrow> py_error + string list" where
  "lookup_all k [] = Inr []"
| "lookup_all k (e # es) =
     (case py_getitem e k of
        Inl err \<Rightarrow> Inl err
      | Inr v \<Rightarrow> (case lookup_all k es of Inl err \<Rightarrow> Inl err | Inr vs \<Rightarrow> Inr (v # vs)))"

text \<open>\<^verbatim>\<open>sep.join(items)\<close>.\<close>

fun py_str_join :: "string \<Rightarrow> string list \<Rightarrow> string" where
  "py_str_join sep [] = []"
| "py_str_join sep [x] = x"
| "py_str_join sep (x # y # ys) = x @ sep @ py_str_join sep (y # ys)"

text \<open>
  A multi-line literal is written as the list of its source lines; \<open>text_of_lines\<close> puts
  the newline after each, which gives the literal back character by character.
\<close>

definition text_of_lines :: "string list \<Rightarrow> string" where
  "text_of_lines ls = concat (map (\<lambda>l. l @ [nl]) ls)"

section \<open>Paths and the file system\<close>

text \<open>
  \<^verbatim>\<open>os.path.join(a, b)\<close> on POSIX: an absolute \<open>b\<close> replaces \<open>a\<close>; otherwise \<open>b\<close> is
  appended, after a separator unless \<open>a\<close> is empty or already ends in one.
\<close>

definition py_join :: "string \<Rightarrow> string \<Rightarrow> string" where
  "py_join a b =
     (if b \<noteq> [] \<and> hd b = CHR ''/'' then b
      else if a = [] \<or> last a = CHR ''/'' then a @ b
      else a @ ''/'' @ b)"

text \<open>
  The file system is a map from resolved paths to nodes. A path string resolves to its
  list of components: split at \<open>/\<close>, empty and \<open>.\<close> components dropped, and a leading
  marker \<open>/\<close> for an absolute path. The working directory \<open>[]\<close> and the root \<open>[''/'']\<close>
  always exist. The model does not interpret \<open>..\<close> components or symbolic links, and it
  has no permissions, quotas or concurrent writers: an operation fails only for the
  reasons written below.
\<close>

datatype node = Dir | File string

type_synonym path = "string list"
type_synonym fs = "path \<Rightarrow> node option"

fun split_sep :: "string \<Rightarrow> string list" where
  "split_sep [] = [[]]"
| "split_sep (c # cs) =
     (if c = CHR ''/'' then [] # split_sep cs
      else (case split_sep cs of [] \<Rightarrow> [[c]] | l # ls \<Rightarrow> (c # l) # ls))"

definition path_of :: "string \<Rightarrow> path" where
  "path_of s =
     (if s \<noteq> [] \<and> hd s = CHR ''/'' then [''/''] else [])
     @ filter (\<lambda>c. c \<noteq> [] \<and> c \<noteq> ''.'') (split_sep s)"

definition node_at :: "fs \<Rightarrow> path \<Rightarrow> node option" where
  "node_at fs p = (if p = [] \<or> p = [''/''] then Some Dir else fs p)"

text \<open>\<^verbatim>\<open>os.path.exists(s)\<close>; the empty string names nothing.\<close>

definition path_exists :: "fs \<Rightarrow> string \<Rightarrow> bool" where
  "path_exists fs s = (s \<noteq> [] \<and> node_at fs (path_of s) \<noteq> None)"

text \<open>
  \<^verbatim>\<open>shutil.rmtree(s)\<close>: removes the directory and everything below it; on a regular file
  it raises \<^verbatim>\<open>NotADirectoryError\<close>, on a missing path \<^verbatim>\<open>FileNotFoundError\<close>.
\<close>

definition rmtree :: "string \<Rightarrow> fs \<Rightarrow> py_error option \<times> fs" where
  "rmtree s fs =
     (case node_at fs (path_of s) of
        None \<Rightarrow> (Some FileNotFoundError, fs)
      | Some (File c) \<Rightarrow> (Some NotADirectoryError, fs)
      | Some Dir \<Rightarrow> (None, (\<lambda>q. if prefix (path_of s) q then None else fs q)))"

text \<open>
  \<^verbatim>\<open>os.makedirs(s, exist_ok=True)\<close>: every missing directory on the way to \<open>s\<close> is
  created. A regular file in the place of \<open>s\<close> raises \<^verbatim>\<open>FileExistsError\<close>, one in the
  place of an ancestor \<^verbatim>\<open>NotADirectoryError\<close>.
\<close>

definition is_file :: "fs \<Rightarrow> path \<Rightarrow> bool" where
  "is_file fs p = (case node_at fs p of Some (File c) \<Rightarrow> True | _ \<Rightarrow> False)"

definition makedirs :: "string \<Rightarrow> fs \<Rightarrow> py_error option \<times> fs" where
  "makedirs s fs =
     (let p = path_of s in
      if s = [] then (Some FileNotFoundError, fs)
      else if list_ex (is_file fs) (butlast (prefixes p)) then (Some NotADirectoryError, fs)
      else if is_file fs p then (Some FileExistsError, fs)
      else (None, (\<lambda>q. if q \<noteq> [] \<and> prefix q p then Some Dir else fs q)))"

text \<open>
  \<^verbatim>\<open>open(s, "w")\<close>: creates the file or truncates it. The directory that holds it must
  exist, and the path must not name a directory.
\<close>

definition open_w :: "string \<Rightarrow> fs \<Rightarrow> py_error option \<times> fs" where
  "open_w s fs =
     (let p = path_of s in
      if s = [] then (Some FileNotFoundError, fs)
      else (case node_at fs p of
              Some Dir \<Rightarrow> (Some IsADirectoryError, fs)
            | _ \<Rightarrow> (case node_at fs (butlast p) of
                      None \<Rightarrow> (Some FileNotFoundError, fs)
                    | Some (File c) \<Rightarrow> (Some NotADirectoryError, fs)
                    | Some Dir \<Rightarrow> (None, fs(p \<mapsto> File [])))))"

text \<open>
  \<^verbatim>\<open>with open(s, "w") as f: f.write(text)\<close>. The file is opened, and so created empty,
  before the argument of \<^verbatim>\<open>write\<close> is evaluated: when building the text raises, the
  empty file stays behind.
\<close>

definition write_file :: "string \<Rightarrow> py_error + string \<Rightarrow> fs \<Rightarrow> py_error option \<times> fs" where
  "write_file s content fs =
     (case open_w s fs of
        (Some err, fs') \<Rightarrow> (Some err, fs')
      | (None, fs') \<Rightarrow>
          (case content of
             Inl err \<Rightarrow> (Some err, fs')
           | Inr txt \<Rightarrow> (None, fs'(path_of s \<mapsto> File txt))))"

text \<open>Statement after statement: the first exception ends the run.\<close>

definition then_run ::
  "(fs \<Rightarrow> py_error option \<times> fs) \<Rightarrow> (fs \<Rightarrow> py_error option \<times> fs) \<Rightarrow> fs \<Rightarrow> py_error option \<times> fs" where
  "then_run m1 m2 fs =
     (case m1 fs of (Some err, fs') \<Rightarrow> (Some err, fs') | (None, fs') \<Rightarrow> m2 fs')"

section \<open>The renderers\<close>

text \<open>
  Each artifact is one f-string of the source. The definitions keep the source's lines,
  one list entry per line, with \<open>bs\<close> for a backslash.
\<close>

subsection \<open>Container build file (lines 14 to 33)\<close>

text \<open>
  The two comprehensions of the literal read \<^verbatim>\<open>e['name']\<close> of every entry; \<open>names\<close> is
  the list of those values. The port is not interpolated: the file declares \<^verbatim>\<open>ARG PORT\<close>.
\<close>

definition dockerfile_head :: "string list" where
  \<open>dockerfile_head =
     [''FROM node:20-slim'',
      '''',
      ''WORKDIR /app'',
      '''',
      ''COPY package*.json ./'',
      ''RUN npm ci --ignore-scripts && npm cache clean --force'',
      ''COPY . .'',
      '''']\<close>

definition dockerfile_port_arg :: "string list" where
  \<open>dockerfile_port_arg =
     [''ARG PORT'',
      '''']\<close>

definition dockerfile_tail :: "string list" where
  \<open>dockerfile_tail =
     [''    PORT=${PORT}'',
      '''',
      ''EXPOSE ${PORT}'',
      '''',
      ''USER node'',
      ''CMD ["node", "dist/main", "--port", "${PORT}"]'']\<close>

text \<open>
  Line 23 is the joined \<^verbatim>\<open>ARG\<close> lines, each with its own line break, followed by the
  line break of the literal; line 26 is the \<^verbatim>\<open>ENV\<close> instruction, its entries joined by
  a backslash, a line break and four spaces.
\<close>

definition dockerfile_text :: "string list \<Rightarrow> string" where
  \<open>dockerfile_text names = text_of_lines
    (dockerfile_head
     @ [concat (map (\<lambda>n. ''ARG '' @ n @ [nl]) names)]
     @ dockerfile_port_arg
     @ [''ENV '' @ py_str_join ('' '' @ bs @ [nl] @ ''    '') (map (\<lambda>n. n @ ''=${'' @ n @ ''}'') names)
          @ '' '' @ bs]
     @ dockerfile_tail)\<close>

definition dockerfile :: "env list \<Rightarrow> py_error + string" where
  "dockerfile envs =
     (case lookup_all ''name'' envs of Inl err \<Rightarrow> Inl err | Inr names \<Rightarrow> Inr (dockerfile_text names))"

subsection \<open>Workload, service and autoscaler manifests (lines 36 to 138)\<close>

definition deployment_lines :: "string \<Rightarrow> pyval \<Rightarrow> string list" where
  \<open>deployment_lines app_name port =
    [''apiVersion: apps/v1'',
      ''kind: Deployment'',
      ''metadata:'',
      ''  name: '' @ app_name,
      ''  namespace: pnud-agvm'',
      ''  labels:'',
      ''    app: '' @ app_name,
      ''spec:'',
      ''  replicas: 1'',
      ''  selector:'',
      ''    matchLabels:'',
      ''      app: '' @ app_name,
      ''  template:'',
      ''    metadata:'',
      ''      labels:'',
      ''        app: '' @ app_name,
      ''    spec:'',
      ''      containers:'',
      ''        - name: '' @ app_name,
      ''          image: ${FULL_IMAGE_NAME}'',
      ''          imagePullPolicy: Always'',
      ''          ports:'',
      ''            - containerPort: '' @ py_format port,
      ''              name: http'',
      ''          envFrom:'',
      ''            - secretRef:'',
      ''                name: '' @ app_name @ ''-secret'',
      ''          resources:'',
      ''            requests:'',
      ''              cpu: "200m"'',
      ''              memory: "256Mi"'',
      ''            limits:'',
      ''              cpu: "1000m"'',
      ''              memory: "1Gi"'',
      ''          livenessProbe:'',
      ''            httpGet:'',
      ''              path: /'' @ app_name,
      ''              port: http'',
      ''            initialDelaySeconds: 30'',
      ''            periodSeconds: 10'',
      ''            timeoutSeconds: 5'',
      ''            failureThreshold: 3'',
      ''          readinessProbe:'',
      ''            httpGet:'',
      ''              path: /'' @ app_name,
      ''              port: http'',
      ''            initialDelaySeconds: 5'',
      ''            periodSeconds: 5'',
      ''            timeoutSeconds: 3'',
      ''            failureThreshold: 3'',
      ''          securityContext:'',
      ''            runAsNonRoot: true'',
      ''            runAsUser: 1000'',
      ''            allowPrivilegeEscalation: false'',
      ''            readOnlyRootFilesystem: true'',
      ''            capabilities:'',
      ''              drop:'',
      ''                - ALL'',
      ''      imagePullSecrets:'',
      ''        - name: harbor-registry-secret'']\<close>

definition deployment_yaml :: "string \<Rightarrow> pyval \<Rightarrow> string" where
  "deployment_yaml app_name port = text_of_lines (deployment_lines app_name port)"

definition service_lines :: "string \<Rightarrow> pyval \<Rightarrow> pyval \<Rightarrow> string list" where
  \<open>service_lines app_name port node_port =
    [''apiVersion: v1'',
      ''kind: Service'',
      ''metadata:'',
      ''  name: '' @ app_name @ ''-service'',
      ''  namespace: pnud-agvm'',
      ''spec:'',
      ''  type: NodePort'',
      ''  selector:'',
      ''    app: '' @ app_name,
      ''  ports:'',
      ''    - protocol: TCP'',
      ''      port: '' @ py_format port,
      ''      targetPort: '' @ py_format port,
      ''      nodePort: '' @ py_format node_port]\<close>

definition service_yaml :: "string \<Rightarrow> pyval \<Rightarrow> pyval \<Rightarrow> string" where
  "service_yaml app_name port node_port = text_of_lines (service_lines app_name port node_port)"

definition hpa_lines :: "string \<Rightarrow> string list" where
  \<open>hpa_lines app_name =
    [''apiVersion: autoscaling/v2'',
      ''kind: HorizontalPodAutoscaler'',
      ''metadata:'',
      ''  name: '' @ app_name @ ''-hpa'',
      ''  namespace: pnud-agvm'',
      ''spec:'',
      ''  scaleTargetRef:'',
      ''    apiVersion: apps/v1'',
      ''    kind: Deployment'',
      ''    name: '' @ app_name,
      ''  minReplicas: 1'',
      ''  maxReplicas: 5'',
      ''  metrics:'',
      ''  - type: Resource'',
      ''    resource:'',
      ''      name: cpu'',
      ''      target:'',
      ''        type: Utilization'',
      ''        averageUtilization: 50'']\<close>

definition hpa_yaml :: "string \<Rightarrow> string" where
  "hpa_yaml app_name = text_of_lines (hpa_lines app_name)"

subsection \<open>Secret template (lines 141 to 152)\<close>




subsection \<open>Pipeline definition (lines 154 to 246)\<close>

text \<open>
  The statements that would write the Jenkinsfile stand in the body of
  \<^verbatim>\<open>write_secret_yaml\<close>, after the secret template. The first of them, line 155, reads
  \<^verbatim>\<open>output_dir\<close>, which that function does not bind, so none of them ever builds a
  text: there is no renderer to define for them. Their effect is the \<^verbatim>\<open>NameError\<close> of
  \<open>write_secret_yaml\<close> below.
\<close>

section \<open>The module's functions\<close>

text \<open>
  \<^verbatim>\<open>generate_files\<close> (lines 7 to 138): the destination, when it exists, is removed with
  everything in it; the \<^verbatim>\<open>k8s\<close> directory is made; then the four files are written
  one after the other. The function ends at line 138: the \<^verbatim>\<open>def\<close> of line 141 starts at
  column 0 and closes its body.
\<close>

definition generate_files ::
  "string \<Rightarrow> pyval \<Rightarrow> pyval \<Rightarrow> env list \<Rightarrow> string \<Rightarrow> fs \<Rightarrow> py_error option \<times> fs" where
  "generate_files app_name port node_port envs output_dir =
     (let k8s_dir = py_join output_dir ''k8s'' in
      then_run (\<lambda>fs. if path_exists fs output_dir then rmtree output_dir fs else (None, fs))
     (then_run (makedirs k8s_dir)
     (then_run (write_file (py_join output_dir ''Dockerfile'') (dockerfile envs))
     (then_run (write_file (py_join k8s_dir (app_name @ ''.yaml''))
                  (Inr (deployment_yaml app_name port)))
     (then_run (write_file (py_join k8s_dir (app_name @ ''-service.yaml''))
                  (Inr (service_yaml app_name port node_port)))
               (write_file (py_join k8s_dir (app_name @ ''-hpa.yaml''))
                  (Inr (hpa_yaml app_name))))))))"





text \<open>
  The handler \<^verbatim>\<open>generate\<close> (lines 252 to 264). \<^verbatim>\<open>data.get\<close> gives \<^verbatim>\<open>None\<close> for a missing
  field and \<^verbatim>\<open>[]\<close> for missing \<^verbatim>\<open>envs\<close>. \<^verbatim>\<open>os.path.join("generated", app_name)\<close> stands
  before the \<^verbatim>\<open>try\<close> and raises \<^verbatim>\<open>TypeError\<close> unless \<^verbatim>\<open>app_name\<close> is a string; every
  exception of \<^verbatim>\<open>generate_files\<close> is caught and answered with status 500.
\<close>

record request =
  req_app_name :: pyval
  req_port :: pyval
  req_node_port :: pyval
  req_envs :: "env list"

datatype response =
    Success string
  | Failure py_error
  | Unhandled py_error

definition generate :: "request \<Rightarrow> fs \<Rightarrow> response \<times> fs" where
  "generate data fs =
     (case req_app_name data of
        PStr app_name \<Rightarrow>
          (let output_dir = py_join ''generated'' app_name in
           case generate_files app_name (req_port data) (req_node_port data) (req_envs data)
                  output_dir fs of
             (None, fs') \<Rightarrow> (Success output_dir, fs')
           | (Some err, fs') \<Rightarrow> (Failure err, fs'))
      | _ \<Rightarrow> (Unhandled TypeError, fs))"




section \<open>Reading the artifacts\<close>

text \<open>
  The claims speak of what an artifact declares: the value under a key of a manifest, the
  build arguments of the build file. These functions read that off the generated text,
  line by line.
\<close>

fun split_lines :: "string \<Rightarrow> string list" where
  "split_lines [] = []"
| "split_lines (c # cs) =
     (if c = nl then [] # split_lines cs
      else (case split_lines cs of [] \<Rightarrow> [[c]] | l # ls \<Rightarrow> (c # l) # ls))"

definition indent_of :: "string \<Rightarrow> nat" where
  "indent_of l = length (takeWhile (\<lambda>c. c = CHR '' '') l)"

definition lstrip :: "string \<Rightarrow> string" where
  "lstrip l = dropWhile (\<lambda>c. c = CHR '' '') l"

text \<open>A YAML line without its indentation and without the dash of a sequence entry.\<close>

definition yaml_item :: "string \<Rightarrow> string" where
  "yaml_item l = (let s = lstrip l in if prefix ''- '' s then drop 2 s else s)"

text \<open>The scalar values the lines give to key \<open>k\<close>, in order.\<close>

definition yaml_values :: "string \<Rightarrow> string list \<Rightarrow> string list" where
  "yaml_values k ls = map (drop (length k + 2)) (filter (prefix (k @ '': '')) (map yaml_item ls))"

text \<open>The lines nested below a line indented by \<open>n\<close>: those that follow it and are indented deeper.\<close>

fun take_block :: "nat \<Rightarrow> string list \<Rightarrow> string list" where
  "take_block n [] = []"
| "take_block n (l # ls) = (if n < indent_of l then l # take_block n ls else [])"

text \<open>The blocks below every occurrence of the mapping key \<open>k\<close>.\<close>

fun yaml_blocks :: "string \<Rightarrow> string list \<Rightarrow> string list list" where
  "yaml_blocks k [] = []"
| "yaml_blocks k (l # ls) =
     (if yaml_item l = k @ '':'' then [take_block (indent_of l) ls] else []) @ yaml_blocks k ls"

text \<open>The build arguments a build file declares: its \<^verbatim>\<open>ARG\<close> instructions.\<close>

definition docker_args :: "string list \<Rightarrow> string list" where
  "docker_args ls = map (drop 4) (filter (prefix ''ARG '') ls)"

text \<open>The values of key \<open>k\<close> in the blocks below every occurrence of key \<open>blk\<close>.\<close>

definition yaml_under :: "string \<Rightarrow> string \<Rightarrow> string list \<Rightarrow> string list list" where
  "yaml_under blk k ls = map (yaml_values k) (yaml_blocks blk ls)"

text \<open>
  The lines of the file a run left at a path; a path that holds no regular file gives no
  line.
\<close>

definition read_lines :: "fs \<Rightarrow> path \<Rightarrow> string list" where
  "read_lines fs p = (case fs p of Some (File t) \<Rightarrow> split_lines t | _ \<Rightarrow> [])"

section \<open>What a run leaves in the file system\<close>



text \<open>
  The destination as the runs of the theorems below find it: a proper path (not the
  working directory or the root themselves, and without a \<open>..\<close> component, which the
  model does not interpret), no regular file in its place or in the place of an ancestor,
  and nothing recorded below it when it does not exist.
\<close>

definition usable_destination :: "fs \<Rightarrow> string \<Rightarrow> bool" where
  "usable_destination fs output_dir =
     (path_of output_dir \<noteq> [] \<and> path_of output_dir \<noteq> [''/'']
      \<and> \<not> List.member (path_of output_dir) ''..''
      \<and> \<not> list_ex (is_file fs) (prefixes (path_of output_dir))
      \<and> (fs (path_of output_dir) = None \<longrightarrow> (\<forall>q. prefix (path_of output_dir) q \<longrightarrow> fs q = None)))"

text \<open>The destination emptied, and the \<^verbatim>\<open>k8s\<close> directory made in it.\<close>

definition cleared :: "path \<Rightarrow> fs \<Rightarrow> fs" where
  "cleared p fs = (\<lambda>q. if prefix p q then None else fs q)"

definition with_dirs :: "path \<Rightarrow> fs \<Rightarrow> fs" where
  "with_dirs p fs = (\<lambda>q. if q \<noteq> [] \<and> prefix q p then Some Dir else fs q)"

section \<open>Properties\<close>

subsection \<open>Lines of a text\<close>

lemma split_lines_line: "nl \<notin> set l \<Longrightarrow> split_lines (l @ nl # t) = l # split_lines t"
  by (induction l) auto

lemma split_lines_text_of_lines_append:
  "\<forall>l\<in>set ls. nl \<notin> set l \<Longrightarrow> split_lines (text_of_lines ls @ t) = ls @ split_lines t"
  by (induction ls) (auto simp: text_of_lines_def split_lines_line)

lemma split_lines_text_of_lines:
  "\<forall>l\<in>set ls. nl \<notin> set l \<Longrightarrow> split_lines (text_of_lines ls) = ls"
  using split_lines_text_of_lines_append [of ls "[]"] by simp

lemma text_of_lines_append: "text_of_lines (a @ b) = text_of_lines a @ text_of_lines b"
  by (simp add: text_of_lines_def)

lemma digits_of_chars: "set (digits_of n) \<subseteq> set ''0123456789''"
proof (induction n rule: digits_of.induct)
  case (1 n)
  have digit: "''0123456789'' ! k \<in> set ''0123456789''" if "k < 10" for k
    using that by (intro nth_mem) simp
  show ?case
  proof (cases "n < 10")
    case True
    then show ?thesis using digit [of n] by (subst digits_of.simps) simp
  next
    case False
    have "n mod 10 < 10" by simp
    with False "1.IH" digit [of "n mod 10"] show ?thesis
      by (subst digits_of.simps) simp
  qed
qed

lemma no_newline_in_int: "nl \<notin> set (py_format (PInt i))"
  using digits_of_chars [of "nat i"] digits_of_chars [of "nat (- i)"] by auto

lemma split_deployment:
  assumes "nl \<notin> set app_name" "nl \<notin> set (py_format port)"
  shows "split_lines (deployment_yaml app_name port) = deployment_lines app_name port"
  unfolding deployment_yaml_def
  by (rule split_lines_text_of_lines) (use assms in \<open>simp add: deployment_lines_def\<close>)

lemma split_service:
  assumes "nl \<notin> set app_name" "nl \<notin> set (py_format port)" "nl \<notin> set (py_format node_port)"
  shows "split_lines (service_yaml app_name port node_port) = service_lines app_name port node_port"
  unfolding service_yaml_def
  by (rule split_lines_text_of_lines) (use assms in \<open>simp add: service_lines_def\<close>)

lemma split_hpa:
  assumes "nl \<notin> set app_name"
  shows "split_lines (hpa_yaml app_name) = hpa_lines app_name"
  unfolding hpa_yaml_def
  by (rule split_lines_text_of_lines) (use assms in \<open>simp add: hpa_lines_def\<close>)

lemmas readers = yaml_item_def lstrip_def indent_of_def yaml_values_def yaml_under_def

text \<open>
  Claim C10. In the workload manifest the liveness probe and the readiness probe both
  request the HTTP path \<open>/\<close> followed by the application name, so the path changes with
  the descriptor; the four timings of each probe are constants of the template. The
  manifest is read as lines, which asks that neither the name nor the formatted port
  holds a line break.
\<close>

theorem probe_paths_follow_the_name:
  assumes "nl \<notin> set app_name" and "nl \<notin> set (py_format port)"
  shows "let D = split_lines (deployment_yaml app_name port) in
           yaml_under ''livenessProbe'' ''path'' D = [[''/'' @ app_name]]
         \<and> yaml_under ''readinessProbe'' ''path'' D = [[''/'' @ app_name]]
         \<and> yaml_under ''livenessProbe'' ''initialDelaySeconds'' D = [[''30'']]
         \<and> yaml_under ''livenessProbe'' ''periodSeconds'' D = [[''10'']]
         \<and> yaml_under ''livenessProbe'' ''timeoutSeconds'' D = [[''5'']]
         \<and> yaml_under ''livenessProbe'' ''failureThreshold'' D = [[''3'']]
         \<and> yaml_under ''readinessProbe'' ''initialDelaySeconds'' D = [[''5'']]
         \<and> yaml_under ''readinessProbe'' ''periodSeconds'' D = [[''5'']]
         \<and> yaml_under ''readinessProbe'' ''timeoutSeconds'' D = [[''3'']]
         \<and> yaml_under ''readinessProbe'' ''failureThreshold'' D = [[''3'']]"
  unfolding split_deployment [OF assms] Let_def
  by (simp add: deployment_lines_def readers)

theorem probe_paths_follow_the_name_witness:
  "nl \<notin> set ''orders-api'' \<and> nl \<notin> set (py_format (PInt 8080))
   \<and> (let D = split_lines (deployment_yaml ''orders-api'' (PInt 8080)) in
           yaml_under ''livenessProbe'' ''path'' D = [[''/orders-api'']]
         \<and> yaml_under ''readinessProbe'' ''path'' D = [[''/orders-api'']]
         \<and> yaml_under ''livenessProbe'' ''initialDelaySeconds'' D = [[''30'']]
         \<and> yaml_under ''readinessProbe'' ''initialDelaySeconds'' D = [[''5'']])"
  using probe_paths_follow_the_name [of "''orders-api''" "PInt 8080"] no_newline_in_int [of 8080]
  by (simp add: Let_def)

lemma split_lines_nl_nonempty: "split_lines (a @ [nl]) \<noteq> []"
  by (induction a) (auto split: list.splits)

lemma split_lines_nl_append: "split_lines (a @ nl # b) = split_lines (a @ [nl]) @ split_lines b"
proof (induction a)
  case Nil
  then show ?case by simp
next
  case (Cons c a)
  then show ?case
    using split_lines_nl_nonempty [of a] by (cases "split_lines (a @ [nl])") auto
qed

subsection \<open>The build file's arguments\<close>

lemma docker_args_append: "docker_args (a @ b) = docker_args a @ docker_args b"
  by (simp add: docker_args_def)

lemma docker_args_ARG: "docker_args (map (\<lambda>n. ''ARG '' @ n) names) = names"
  by (induction names) (simp_all add: docker_args_def)

lemma ARG_lines: "concat (map (\<lambda>n. ''ARG '' @ n @ [nl]) names) = text_of_lines (map (\<lambda>n. ''ARG '' @ n) names)"
  by (induction names) (simp_all add: text_of_lines_def)

lemma env_instruction_no_ARG:
  assumes "\<forall>x\<in>set items. nl \<notin> set x" and "nl \<notin> set pre"
    and "\<And>t. \<not> prefix ''ARG '' (pre @ t)"
  shows "docker_args (split_lines
           (pre @ py_str_join ('' '' @ bs @ [nl] @ ''    '') items @ '' '' @ bs @ [nl])) = []"
  using assms
proof (induction "'' '' @ bs @ [nl] @ ''    ''" items arbitrary: pre rule: py_str_join.induct)
  case 1
  have "split_lines (pre @ '' '' @ bs @ [nl]) = [pre @ '' '' @ bs]"
    using split_lines_line [of "pre @ '' '' @ bs" "[]"] "1.prems"(2) by simp
  then show ?case using "1.prems"(3) [of "'' '' @ bs"] by (simp add: docker_args_def)
next
  case (2 x)
  have "split_lines (pre @ x @ '' '' @ bs @ [nl]) = [pre @ x @ '' '' @ bs]"
    using split_lines_line [of "pre @ x @ '' '' @ bs" "[]"] "2.prems"(1,2) by simp
  then show ?case using "2.prems"(3) [of "x @ '' '' @ bs"] by (simp add: docker_args_def)
next
  case (3 x y ys)
  let ?sep = "'' '' @ bs @ [nl] @ ''    ''"
  have first: "split_lines (pre @ (x @ ?sep @ py_str_join ?sep (y # ys)) @ '' '' @ bs @ [nl])
      = (pre @ x @ '' '' @ bs)
        # split_lines (''    '' @ py_str_join ?sep (y # ys) @ '' '' @ bs @ [nl])"
    using split_lines_line [of "pre @ x @ '' '' @ bs"
        "''    '' @ py_str_join ?sep (y # ys) @ '' '' @ bs @ [nl]"] "3.prems"(1,2)
    by simp
  have rest: "docker_args (split_lines (''    '' @ py_str_join ?sep (y # ys) @ '' '' @ bs @ [nl])) = []"
    using "3.prems"(1) by (intro "3.hyps") simp_all
  show ?case
    unfolding py_str_join.simps first
    using rest "3.prems"(3) [of "x @ '' '' @ bs"] by (simp add: docker_args_def)
qed

lemma docker_args_of_text:
  assumes "\<forall>n\<in>set names. nl \<notin> set n"
  shows "docker_args (split_lines (dockerfile_text names)) = names @ [''PORT'']"
proof -
  define E where "E = ''ENV '' @ py_str_join ('' '' @ bs @ [nl] @ ''    '')
                 (map (\<lambda>n. n @ ''=${'' @ n @ ''}'') names) @ '' '' @ bs"
  have env: "docker_args (split_lines (E @ [nl])) = []"
    unfolding E_def
    using env_instruction_no_ARG [of "map (\<lambda>n. n @ ''=${'' @ n @ ''}'') names" "''ENV ''"] assms
    by simp
  have args: "\<forall>l\<in>set (map (\<lambda>n. ''ARG '' @ n) names). nl \<notin> set l"
    using assms by simp
  have head: "\<forall>l\<in>set dockerfile_head. nl \<notin> set l"
    by (simp add: dockerfile_head_def)
  have port: "\<forall>l\<in>set ([] # dockerfile_port_arg). nl \<notin> set l"
    by (simp add: dockerfile_port_arg_def)
  have tail: "\<forall>l\<in>set dockerfile_tail. nl \<notin> set l"
    by (simp add: dockerfile_tail_def)
  have shape: "dockerfile_text names
      = text_of_lines dockerfile_head
        @ text_of_lines (map (\<lambda>n. ''ARG '' @ n) names)
        @ text_of_lines ([] # dockerfile_port_arg)
        @ E @ nl # text_of_lines dockerfile_tail"
    unfolding dockerfile_text_def text_of_lines_append ARG_lines E_def
    by (simp add: text_of_lines_def comp_def)
  have "split_lines (dockerfile_text names)
      = dockerfile_head @ map (\<lambda>n. ''ARG '' @ n) names @ ([] # dockerfile_port_arg)
        @ split_lines (E @ [nl]) @ dockerfile_tail"
    unfolding shape
    apply (subst split_lines_text_of_lines_append [OF head])
    apply (subst split_lines_text_of_lines_append [OF args])
    apply (subst split_lines_text_of_lines_append [OF port])
    apply (subst split_lines_nl_append [of E])
    apply (subst split_lines_text_of_lines [OF tail])
    apply (rule refl)
    done
  then show ?thesis
    using env
    by (simp add: docker_args_def dockerfile_head_def dockerfile_port_arg_def dockerfile_tail_def
          comp_def)
qed

subsection \<open>Paths\<close>

lemma split_sep_nonempty: "split_sep s \<noteq> []"
  by (induction s) (auto split: list.splits)

lemma split_sep_append: "split_sep (a @ CHR ''/'' # b) = split_sep a @ split_sep b"
proof (induction a)
  case Nil
  then show ?case by simp
next
  case (Cons c a)
  then show ?case
    using split_sep_nonempty [of a] by (cases "split_sep a") auto
qed

lemma split_sep_plain: "CHR ''/'' \<notin> set b \<Longrightarrow> split_sep b = [b]"
  by (induction b) auto

lemma py_join_plain:
  assumes "CHR ''/'' \<notin> set b"
  shows "py_join a b = (if a = [] \<or> last a = CHR ''/'' then a @ b else a @ ''/'' @ b)"
  using assms by (cases b) (auto simp: py_join_def)

lemma path_of_join:
  assumes "out \<noteq> []" and "CHR ''/'' \<notin> set b" and "b \<noteq> []" and "b \<noteq> ''.''"
  shows "path_of (py_join out b) = path_of out @ [b]"
proof (cases "last out = CHR ''/''")
  case True
  then have out: "out = butlast out @ ''/''"
    using assms(1) by (metis append_butlast_last_id)
  have "split_sep out = split_sep (butlast out) @ [[]]"
    using split_sep_append [of "butlast out" "[]"] out by simp
  moreover have "split_sep (out @ b) = split_sep (butlast out) @ [b]"
    using split_sep_append [of "butlast out" b] out split_sep_plain [OF assms(2)]
    by (metis append.assoc append_Cons append_Nil)
  moreover have "hd (out @ b) = hd out" using assms(1) by simp
  ultimately show ?thesis
    using True assms by (simp add: py_join_plain path_of_def)
next
  case False
  have "split_sep (out @ ''/'' @ b) = split_sep out @ [b]"
    using split_sep_append [of out b] split_sep_plain [OF assms(2)] by simp
  moreover have "hd (out @ ''/'' @ b) = hd out" using assms(1) by simp
  ultimately show ?thesis
    using False assms by (simp add: py_join_plain path_of_def)
qed

lemma py_join_nonempty: "b \<noteq> [] \<Longrightarrow> py_join a b \<noteq> []"
  by (auto simp: py_join_def)

lemma path_of_empty: "path_of [] = []"
  by (simp add: path_of_def)

lemma file_name_plain:
  assumes "CHR ''/'' \<notin> set app_name" and "CHR ''/'' \<notin> set ext" and "2 \<le> length ext"
  shows "CHR ''/'' \<notin> set (app_name @ ext)" "app_name @ ext \<noteq> []" "app_name @ ext \<noteq> ''.''"
proof -
  show "CHR ''/'' \<notin> set (app_name @ ext)" using assms by simp
  show "app_name @ ext \<noteq> []" using assms by auto
  have "length (app_name @ ext) \<noteq> length ''.''" using assms by simp
  then show "app_name @ ext \<noteq> ''.''" by metis
qed

text \<open>Where the run puts its directory and its four files.\<close>

lemma k8s_path:
  assumes "path_of output_dir \<noteq> []"
  shows "path_of (py_join output_dir ''k8s'') = path_of output_dir @ [''k8s'']"
    and "py_join output_dir ''k8s'' \<noteq> []"
proof -
  have "output_dir \<noteq> []" using assms path_of_empty by auto
  then show "path_of (py_join output_dir ''k8s'') = path_of output_dir @ [''k8s'']"
    by (intro path_of_join) simp_all
  show "py_join output_dir ''k8s'' \<noteq> []" by (rule py_join_nonempty) simp
qed

lemma dockerfile_path:
  assumes "path_of output_dir \<noteq> []"
  shows "path_of (py_join output_dir ''Dockerfile'') = path_of output_dir @ [''Dockerfile'']"
    and "py_join output_dir ''Dockerfile'' \<noteq> []"
proof -
  have "output_dir \<noteq> []" using assms path_of_empty by auto
  then show "path_of (py_join output_dir ''Dockerfile'') = path_of output_dir @ [''Dockerfile'']"
    by (intro path_of_join) simp_all
  show "py_join output_dir ''Dockerfile'' \<noteq> []" by (rule py_join_nonempty) simp
qed

lemma manifest_path:
  assumes "path_of output_dir \<noteq> []" and "CHR ''/'' \<notin> set app_name"
    and "CHR ''/'' \<notin> set ext" and "2 \<le> length ext"
  shows "path_of (py_join (py_join output_dir ''k8s'') (app_name @ ext))
           = path_of output_dir @ [''k8s'', app_name @ ext]"
    and "py_join (py_join output_dir ''k8s'') (app_name @ ext) \<noteq> []"
proof -
  have "path_of (py_join (py_join output_dir ''k8s'') (app_name @ ext))
      = path_of (py_join output_dir ''k8s'') @ [app_name @ ext]"
    using file_name_plain [OF assms(2-4)] k8s_path(2) [OF assms(1)] by (intro path_of_join)
  then show "path_of (py_join (py_join output_dir ''k8s'') (app_name @ ext))
           = path_of output_dir @ [''k8s'', app_name @ ext]"
    using k8s_path(1) [OF assms(1)] by simp
  show "py_join (py_join output_dir ''k8s'') (app_name @ ext) \<noteq> []"
    using file_name_plain(2) [OF assms(2-4)] by (rule py_join_nonempty)
qed

subsection \<open>A run of \<open>generate_files\<close>, step by step\<close>

lemma node_at_below: "D \<noteq> [] \<Longrightarrow> node_at S (D @ [f]) = S (D @ [f])"
  by (cases D) (auto simp: node_at_def)

lemma is_file_cleared: "is_file (cleared P fs) q \<Longrightarrow> is_file fs q"
  by (auto simp: is_file_def cleared_def node_at_def split: if_splits option.splits node.splits)

lemma usable_destinationD:
  assumes "usable_destination fs output_dir"
  shows "path_of output_dir \<noteq> []" and "path_of output_dir \<noteq> [''/'']" and "output_dir \<noteq> []"
    and "\<And>q. prefix q (path_of output_dir) \<Longrightarrow> \<not> is_file fs q"
    and "fs (path_of output_dir) = None \<Longrightarrow> prefix (path_of output_dir) q \<Longrightarrow> fs q = None"
  using assms path_of_empty by (auto simp: usable_destination_def list_ex_iff)

lemma clear_destination:
  assumes "usable_destination fs output_dir"
  shows "(if path_exists fs output_dir then rmtree output_dir fs else (None, fs))
           = (None, cleared (path_of output_dir) fs)"
proof (cases "fs (path_of output_dir)")
  case None
  then have "cleared (path_of output_dir) fs = fs"
    using usable_destinationD(5) [OF assms] by (auto simp: cleared_def)
  moreover have "\<not> path_exists fs output_dir"
    using None usable_destinationD(1,2) [OF assms] by (simp add: path_exists_def node_at_def)
  ultimately show ?thesis by simp
next
  case (Some n)
  have "\<not> is_file fs (path_of output_dir)"
    by (rule usable_destinationD(4) [OF assms]) simp
  then have dir: "node_at fs (path_of output_dir) = Some Dir"
    using Some usable_destinationD(1,2) [OF assms]
    by (cases n) (simp_all add: is_file_def node_at_def)
  then have "path_exists fs output_dir"
    using usable_destinationD(3) [OF assms] by (simp add: path_exists_def)
  then show ?thesis using dir by (simp add: rmtree_def cleared_def)
qed

lemma make_k8s:
  assumes "usable_destination fs output_dir"
  shows "makedirs (py_join output_dir ''k8s'') (cleared (path_of output_dir) fs)
           = (None, with_dirs (path_of output_dir @ [''k8s'']) (cleared (path_of output_dir) fs))"
proof -
  let ?P = "path_of output_dir"
  note P = usable_destinationD [OF assms]
  have ancestors: "\<not> list_ex (is_file (cleared ?P fs)) (prefixes ?P)"
    using P(4) by (auto simp: list_ex_iff dest: is_file_cleared)
  have itself: "\<not> is_file (cleared ?P fs) (?P @ [''k8s''])"
    using P(1) by (simp add: is_file_def node_at_below cleared_def)
  show ?thesis
    using ancestors itself k8s_path [OF P(1)]
    by (simp add: makedirs_def with_dirs_def)
qed

lemma write_into:
  assumes "s \<noteq> []" and "path_of s = D @ [f]" and "D \<noteq> []" and "S D = Some Dir"
    and "S (D @ [f]) = None"
  shows "write_file s (Inr txt) S = (None, S(D @ [f] \<mapsto> File txt))"
    and "write_file s (Inl err) S = (Some err, S(D @ [f] \<mapsto> File []))"
proof -
  have "node_at S D = Some Dir" using assms(4) by (simp add: node_at_def)
  then have "open_w s S = (None, S(D @ [f] \<mapsto> File []))"
    using assms by (simp add: open_w_def node_at_below)
  then show "write_file s (Inr txt) S = (None, S(D @ [f] \<mapsto> File txt))"
    and "write_file s (Inl err) S = (Some err, S(D @ [f] \<mapsto> File []))"
    using assms(2) by (simp_all add: write_file_def)
qed

lemma run_until_dockerfile:
  assumes "usable_destination fs output_dir"
  shows "then_run (\<lambda>fs. if path_exists fs output_dir then rmtree output_dir fs else (None, fs))
          (then_run (makedirs (py_join output_dir ''k8s''))
          (then_run (write_file (py_join output_dir ''Dockerfile'') content) rest)) fs
      = (case content of
           Inl err \<Rightarrow> (Some err, (with_dirs (path_of output_dir @ [''k8s''])
                          (cleared (path_of output_dir) fs))(path_of output_dir @ [''Dockerfile''] \<mapsto> File []))
         | Inr txt \<Rightarrow> rest ((with_dirs (path_of output_dir @ [''k8s''])
                          (cleared (path_of output_dir) fs))(path_of output_dir @ [''Dockerfile''] \<mapsto> File txt)))"
proof -
  let ?P = "path_of output_dir"
  let ?S = "with_dirs (?P @ [''k8s'']) (cleared ?P fs)"
  note P = usable_destinationD [OF assms]
  have dir: "?S ?P = Some Dir" using P(1) by (simp add: with_dirs_def)
  have free: "?S (?P @ [''Dockerfile'']) = None" by (simp add: with_dirs_def cleared_def)
  note w = write_into [OF dockerfile_path(2) [OF P(1)] dockerfile_path(1) [OF P(1)] P(1) dir free]
  show ?thesis
    using clear_destination [OF assms] make_k8s [OF assms] w
    by (cases content) (simp_all add: then_run_def)
qed

lemma run_manifests:
  assumes "path_of output_dir \<noteq> []" and "CHR ''/'' \<notin> set app_name"
    and "S (path_of output_dir @ [''k8s'']) = Some Dir"
    and "S (path_of output_dir @ [''k8s'', app_name @ ''.yaml'']) = None"
    and "S (path_of output_dir @ [''k8s'', app_name @ ''-service.yaml'']) = None"
    and "S (path_of output_dir @ [''k8s'', app_name @ ''-hpa.yaml'']) = None"
  shows "then_run (write_file (py_join (py_join output_dir ''k8s'') (app_name @ ''.yaml'')) (Inr a))
        (then_run (write_file (py_join (py_join output_dir ''k8s'') (app_name @ ''-service.yaml'')) (Inr b))
                  (write_file (py_join (py_join output_dir ''k8s'') (app_name @ ''-hpa.yaml'')) (Inr c))) S
      = (None, S(path_of output_dir @ [''k8s'', app_name @ ''.yaml''] \<mapsto> File a,
                 path_of output_dir @ [''k8s'', app_name @ ''-service.yaml''] \<mapsto> File b,
                 path_of output_dir @ [''k8s'', app_name @ ''-hpa.yaml''] \<mapsto> File c))"
proof -
  let ?K = "path_of output_dir @ [''k8s'']"
  have K: "?K \<noteq> []" by simp
  note p1 = manifest_path [OF assms(1,2), of "''.yaml''"]
  note p2 = manifest_path [OF assms(1,2), of "''-service.yaml''"]
  note p3 = manifest_path [OF assms(1,2), of "''-hpa.yaml''"]
  have w1: "write_file (py_join (py_join output_dir ''k8s'') (app_name @ ''.yaml'')) (Inr a) S
      = (None, S(?K @ [app_name @ ''.yaml''] \<mapsto> File a))"
    using p1 assms(3,4) by (intro write_into(1)) simp_all
  let ?S1 = "S(?K @ [app_name @ ''.yaml''] \<mapsto> File a)"
  have w2: "write_file (py_join (py_join output_dir ''k8s'') (app_name @ ''-service.yaml'')) (Inr b) ?S1
      = (None, ?S1(?K @ [app_name @ ''-service.yaml''] \<mapsto> File b))"
    using p2 assms(3,5) by (intro write_into(1)) simp_all
  let ?S2 = "?S1(?K @ [app_name @ ''-service.yaml''] \<mapsto> File b)"
  have w3: "write_file (py_join (py_join output_dir ''k8s'') (app_name @ ''-hpa.yaml'')) (Inr c) ?S2
      = (None, ?S2(?K @ [app_name @ ''-hpa.yaml''] \<mapsto> File c))"
    using p3 assms(3,6) by (intro write_into(1)) simp_all
  show ?thesis using w1 w2 w3 by (simp add: then_run_def)
qed


lemma run_with_names:
  assumes "usable_destination fs output_dir" and "lookup_all ''name'' envs = Inr names"
    and "CHR ''/'' \<notin> set app_name"
  shows "generate_files app_name port node_port envs output_dir fs
      = (None, (with_dirs (path_of output_dir @ [''k8s'']) (cleared (path_of output_dir) fs))
           (path_of output_dir @ [''Dockerfile''] \<mapsto> File (dockerfile_text names),
            path_of output_dir @ [''k8s'', app_name @ ''.yaml'']
              \<mapsto> File (deployment_yaml app_name port),
            path_of output_dir @ [''k8s'', app_name @ ''-service.yaml'']
              \<mapsto> File (service_yaml app_name port node_port),
            path_of output_dir @ [''k8s'', app_name @ ''-hpa.yaml''] \<mapsto> File (hpa_yaml app_name)))"
proof -
  let ?P = "path_of output_dir"
  let ?S = "(with_dirs (?P @ [''k8s'']) (cleared ?P fs))(?P @ [''Dockerfile''] \<mapsto> File (dockerfile_text names))"
  note P = usable_destinationD [OF assms(1)]
  have "?S (?P @ [''k8s'']) = Some Dir"
    and "?S (?P @ [''k8s'', app_name @ ''.yaml'']) = None"
    and "?S (?P @ [''k8s'', app_name @ ''-service.yaml'']) = None"
    and "?S (?P @ [''k8s'', app_name @ ''-hpa.yaml'']) = None"
    by (simp_all add: with_dirs_def cleared_def)
  note m = run_manifests [OF P(1) assms(3) this]
  show ?thesis
    unfolding generate_files_def Let_def run_until_dockerfile [OF assms(1)]
    by (simp only: dockerfile_def assms(2) sum.case m)
qed

subsection \<open>What a run leaves untouched\<close>







subsection \<open>The claims about what a run leaves behind\<close>


lemma example_destination:
  "path_of ''generated/orders-api'' = [''generated'', ''orders-api'']"
  by (simp add: path_of_def)


lemma empty_is_usable:
  "path_of s \<noteq> [] \<Longrightarrow> path_of s \<noteq> [''/''] \<Longrightarrow> \<not> List.member (path_of s) ''..''
     \<Longrightarrow> usable_destination (\<lambda>q. None) s"
  by (simp add: usable_destination_def list_ex_iff is_file_def node_at_def)

















subsection \<open>The files of a successful run, read back\<close>

lemma run_reads:
  assumes "usable_destination fs output_dir" and "lookup_all ''name'' envs = Inr names"
    and "CHR ''/'' \<notin> set app_name"
  shows "read_lines (snd (generate_files app_name port node_port envs output_dir fs))
           (path_of output_dir @ [''Dockerfile'']) = split_lines (dockerfile_text names)"
    and "read_lines (snd (generate_files app_name port node_port envs output_dir fs))
           (path_of output_dir @ [''k8s'', app_name @ ''.yaml''])
         = split_lines (deployment_yaml app_name port)"
    and "read_lines (snd (generate_files app_name port node_port envs output_dir fs))
           (path_of output_dir @ [''k8s'', app_name @ ''-service.yaml''])
         = split_lines (service_yaml app_name port node_port)"
    and "read_lines (snd (generate_files app_name port node_port envs output_dir fs))
           (path_of output_dir @ [''k8s'', app_name @ ''-hpa.yaml''])
         = split_lines (hpa_yaml app_name)"
  unfolding run_with_names [OF assms] by (simp_all add: read_lines_def)

text \<open>
  Claim C5, over the manifests \<open>generate_files\<close> writes. After a run that returns
  normally (a usable destination, every entry with a name), the three manifests read back
  from the \<^verbatim>\<open>k8s\<close> directory agree: the workload's own name, both of its \<^verbatim>\<open>app\<close> labels
  and its selector, the service's selector and the autoscaler's scale target are the
  application name; the workload refers to the secret \<open>name-secret\<close>; the service is
  named \<open>name-service\<close> and the autoscaler \<open>name-hpa\<close>. The manifests are read as lines,
  which asks that the name and the formatted ports hold no line break.
\<close>

theorem names_agree_across_manifests:
  assumes "usable_destination fs output_dir" and "lookup_all ''name'' envs = Inr names"
    and "CHR ''/'' \<notin> set app_name"
    and "nl \<notin> set app_name" and "nl \<notin> set (py_format port)"
    and "nl \<notin> set (py_format node_port)"
  shows "let out = snd (generate_files app_name port node_port envs output_dir fs);
             D = read_lines out (path_of output_dir @ [''k8s'', app_name @ ''.yaml'']);
             S = read_lines out (path_of output_dir @ [''k8s'', app_name @ ''-service.yaml'']);
             H = read_lines out (path_of output_dir @ [''k8s'', app_name @ ''-hpa.yaml''])
         in yaml_values ''name'' (hd (yaml_blocks ''metadata'' D)) = [app_name]
          \<and> yaml_under ''labels'' ''app'' D = [[app_name], [app_name]]
          \<and> yaml_under ''matchLabels'' ''app'' D = [[app_name]]
          \<and> yaml_under ''selector'' ''app'' S = [[app_name]]
          \<and> yaml_under ''scaleTargetRef'' ''name'' H = [[app_name]]
          \<and> yaml_under ''secretRef'' ''name'' D = [[app_name @ ''-secret'']]
          \<and> yaml_values ''name'' (hd (yaml_blocks ''metadata'' S)) = [app_name @ ''-service'']
          \<and> yaml_values ''name'' (hd (yaml_blocks ''metadata'' H)) = [app_name @ ''-hpa'']"
proof -
  have D: "yaml_values ''name'' (hd (yaml_blocks ''metadata'' (deployment_lines app_name port))) = [app_name]
      \<and> yaml_under ''labels'' ''app'' (deployment_lines app_name port) = [[app_name], [app_name]]
      \<and> yaml_under ''matchLabels'' ''app'' (deployment_lines app_name port) = [[app_name]]
      \<and> yaml_under ''secretRef'' ''name'' (deployment_lines app_name port) = [[app_name @ ''-secret'']]"
    by (simp add: deployment_lines_def readers)
  have S: "yaml_under ''selector'' ''app'' (service_lines app_name port node_port) = [[app_name]]
      \<and> yaml_values ''name'' (hd (yaml_blocks ''metadata'' (service_lines app_name port node_port)))
          = [app_name @ ''-service'']"
    by (simp add: service_lines_def readers)
  have H: "yaml_under ''scaleTargetRef'' ''name'' (hpa_lines app_name) = [[app_name]]
      \<and> yaml_values ''name'' (hd (yaml_blocks ''metadata'' (hpa_lines app_name))) = [app_name @ ''-hpa'']"
    by (simp add: hpa_lines_def readers)
  show ?thesis
    unfolding Let_def run_reads [OF assms(1-3)] split_deployment [OF assms(4,5)]
      split_service [OF assms(4-6)] split_hpa [OF assms(4)]
    using D S H by simp
qed

theorem names_agree_across_manifests_witness:
  "usable_destination (\<lambda>q. None) ''generated/orders-api''
   \<and> lookup_all ''name'' [[(''name'', ''DB_URL''), (''secret_id'', ''db-url-secret'')]] = Inr [''DB_URL'']
   \<and> CHR ''/'' \<notin> set ''orders-api'' \<and> nl \<notin> set ''orders-api''
   \<and> nl \<notin> set (py_format (PInt 8080)) \<and> nl \<notin> set (py_format (PInt 30080))
   \<and> (let out = snd (generate_files ''orders-api'' (PInt 8080) (PInt 30080)
                    [[(''name'', ''DB_URL''), (''secret_id'', ''db-url-secret'')]]
                    ''generated/orders-api'' (\<lambda>q. None));
            D = read_lines out [''generated'', ''orders-api'', ''k8s'', ''orders-api.yaml''];
            S = read_lines out [''generated'', ''orders-api'', ''k8s'', ''orders-api-service.yaml''];
            H = read_lines out [''generated'', ''orders-api'', ''k8s'', ''orders-api-hpa.yaml'']
        in yaml_values ''name'' (hd (yaml_blocks ''metadata'' D)) = [''orders-api'']
         \<and> yaml_under ''labels'' ''app'' D = [[''orders-api''], [''orders-api'']]
         \<and> yaml_under ''matchLabels'' ''app'' D = [[''orders-api'']]
         \<and> yaml_under ''selector'' ''app'' S = [[''orders-api'']]
         \<and> yaml_under ''scaleTargetRef'' ''name'' H = [[''orders-api'']]
         \<and> yaml_under ''secretRef'' ''name'' D = [[''orders-api-secret'']]
         \<and> yaml_values ''name'' (hd (yaml_blocks ''metadata'' S)) = [''orders-api-service'']
         \<and> yaml_values ''name'' (hd (yaml_blocks ''metadata'' H)) = [''orders-api-hpa''])"
proof -
  have u: "usable_destination (\<lambda>q. None) ''generated/orders-api''"
    by (rule empty_is_usable) (simp_all add: example_destination)
  have names: "lookup_all ''name'' [[(''name'', ''DB_URL''), (''secret_id'', ''db-url-secret'')]]
      = Inr [''DB_URL'']"
    by (simp add: py_getitem_def)
  have s: "CHR ''/'' \<notin> set ''orders-api''" and n: "nl \<notin> set ''orders-api''" by simp_all
  have p: "nl \<notin> set (py_format (PInt 8080))" and np: "nl \<notin> set (py_format (PInt 30080))"
    by (rule no_newline_in_int)+
  note T = names_agree_across_manifests [OF u names s n p np, unfolded example_destination]
  show ?thesis
    using T by (intro conjI u names s n p np) (simp add: Let_def)
qed

subsection \<open>The example request on an empty file system\<close>

lemma example_run:
  assumes "lookup_all ''name'' envs = Inr names"
  shows "generate_files ''orders-api'' port node_port envs ''generated/orders-api'' (\<lambda>q. None)
   = (None, (with_dirs [''generated'', ''orders-api'', ''k8s'']
               (cleared [''generated'', ''orders-api''] (\<lambda>q. None)))
       ([''generated'', ''orders-api'', ''Dockerfile''] \<mapsto> File (dockerfile_text names),
        [''generated'', ''orders-api'', ''k8s'', ''orders-api.yaml'']
          \<mapsto> File (deployment_yaml ''orders-api'' port),
        [''generated'', ''orders-api'', ''k8s'', ''orders-api-service.yaml'']
          \<mapsto> File (service_yaml ''orders-api'' port node_port),
        [''generated'', ''orders-api'', ''k8s'', ''orders-api-hpa.yaml'']
          \<mapsto> File (hpa_yaml ''orders-api'')))"
proof -
  have u: "usable_destination (\<lambda>q. None) ''generated/orders-api''"
    by (rule empty_is_usable) (simp_all add: example_destination)
  have s: "CHR ''/'' \<notin> set ''orders-api''" by simp
  show ?thesis
    using run_with_names [OF u assms s, of port node_port]
    by (simp add: example_destination)
qed

lemma below_k8s:
  "(q \<noteq> [] \<and> prefix q [''generated'', ''orders-api'', ''k8s''])
     = (q = [''generated''] \<or> q = [''generated'', ''orders-api'']
        \<or> q = [''generated'', ''orders-api'', ''k8s''])"
  unfolding in_set_prefixes [symmetric] by auto

lemma example_dom:
  "dom ((with_dirs [''generated'', ''orders-api'', ''k8s'']
               (cleared [''generated'', ''orders-api''] (\<lambda>q. None)))
       ([''generated'', ''orders-api'', ''Dockerfile''] \<mapsto> a,
        [''generated'', ''orders-api'', ''k8s'', ''orders-api.yaml''] \<mapsto> b,
        [''generated'', ''orders-api'', ''k8s'', ''orders-api-service.yaml''] \<mapsto> c,
        [''generated'', ''orders-api'', ''k8s'', ''orders-api-hpa.yaml''] \<mapsto> d))
   = {[''generated''], [''generated'', ''orders-api''],
      [''generated'', ''orders-api'', ''k8s''],
      [''generated'', ''orders-api'', ''Dockerfile''],
      [''generated'', ''orders-api'', ''k8s'', ''orders-api.yaml''],
      [''generated'', ''orders-api'', ''k8s'', ''orders-api-service.yaml''],
      [''generated'', ''orders-api'', ''k8s'', ''orders-api-hpa.yaml'']}"
proof -
  have "dom (with_dirs [''generated'', ''orders-api'', ''k8s'']
               (cleared [''generated'', ''orders-api''] (\<lambda>q. None)))
      = {[''generated''], [''generated'', ''orders-api''], [''generated'', ''orders-api'', ''k8s'']}"
    by (auto simp: dom_def with_dirs_def cleared_def below_k8s)
  then show ?thesis by auto
qed

lemma example_generate:
  assumes "lookup_all ''name'' envs = Inr names"
  shows "generate \<lparr>req_app_name = PStr ''orders-api'', req_port = port,
                   req_node_port = node_port, req_envs = envs\<rparr> (\<lambda>q. None)
         = (Success ''generated/orders-api'',
            snd (generate_files ''orders-api'' port node_port envs ''generated/orders-api''
                   (\<lambda>q. None)))"
proof -
  have j: "py_join ''generated'' ''orders-api'' = ''generated/orders-api''"
    by (simp add: py_join_def)
  show ?thesis
    unfolding generate_def by (simp add: j example_run [OF assms] del: fun_upd_apply)
qed

lemma one_name:
  "lookup_all ''name'' [[(''name'', ''DB_URL''), (''secret_id'', ''db-url-secret'')]]
     = Inr [''DB_URL'']"
  by (simp add: py_getitem_def)

text \<open>
  Claim C1, on a request the handler serves. The request succeeds, and the file system,
  empty before, then holds the three directories, the build file and the three manifests
  and nothing else: no secret template and no pipeline definition.
\<close>

theorem bundle_has_four_files:
  "fst (generate \<lparr>req_app_name = PStr ''orders-api'', req_port = PInt 8080,
                  req_node_port = PInt 30080,
                  req_envs = [[(''name'', ''DB_URL''), (''secret_id'', ''db-url-secret'')]]\<rparr>
          (\<lambda>q. None)) = Success ''generated/orders-api''
   \<and> dom (snd (generate \<lparr>req_app_name = PStr ''orders-api'', req_port = PInt 8080,
                  req_node_port = PInt 30080,
                  req_envs = [[(''name'', ''DB_URL''), (''secret_id'', ''db-url-secret'')]]\<rparr>
               (\<lambda>q. None)))
      = {[''generated''], [''generated'', ''orders-api''],
         [''generated'', ''orders-api'', ''k8s''],
         [''generated'', ''orders-api'', ''Dockerfile''],
         [''generated'', ''orders-api'', ''k8s'', ''orders-api.yaml''],
         [''generated'', ''orders-api'', ''k8s'', ''orders-api-service.yaml''],
         [''generated'', ''orders-api'', ''k8s'', ''orders-api-hpa.yaml'']}"
  unfolding example_generate [OF one_name] example_run [OF one_name] fst_conv snd_conv
  by (intro conjI refl example_dom)

text \<open>
  Claim C4, on the same request. The workload manifest is written to
  \<^verbatim>\<open>k8s/orders-api.yaml\<close> (line 36). Nothing is written to
  \<^verbatim>\<open>k8s/orders-api-deployment.yaml\<close>, the first of the three paths the deploy loop of
  lines 232 to 234 names, and no \<^verbatim>\<open>Jenkinsfile\<close> is written that could read any path.
\<close>

theorem workload_manifest_path:
  "fst (generate_files ''orders-api'' (PInt 8080) (PInt 30080)
          [[(''name'', ''DB_URL''), (''secret_id'', ''db-url-secret'')]]
          ''generated/orders-api'' (\<lambda>q. None)) = None
   \<and> snd (generate_files ''orders-api'' (PInt 8080) (PInt 30080)
          [[(''name'', ''DB_URL''), (''secret_id'', ''db-url-secret'')]]
          ''generated/orders-api'' (\<lambda>q. None))
        [''generated'', ''orders-api'', ''k8s'', ''orders-api.yaml'']
      = Some (File (deployment_yaml ''orders-api'' (PInt 8080)))
   \<and> snd (generate_files ''orders-api'' (PInt 8080) (PInt 30080)
          [[(''name'', ''DB_URL''), (''secret_id'', ''db-url-secret'')]]
          ''generated/orders-api'' (\<lambda>q. None))
        [''generated'', ''orders-api'', ''k8s'', ''orders-api-deployment.yaml''] = None
   \<and> snd (generate_files ''orders-api'' (PInt 8080) (PInt 30080)
          [[(''name'', ''DB_URL''), (''secret_id'', ''db-url-secret'')]]
          ''generated/orders-api'' (\<lambda>q. None))
        [''generated'', ''orders-api'', ''Jenkinsfile''] = None"
  unfolding example_run [OF one_name]
  by (simp add: with_dirs_def cleared_def)




text \<open>
  Claim C7, on a request without variables. The request succeeds and the build file it
  leaves declares the one build argument \<^verbatim>\<open>PORT\<close>; the file system, empty before, holds
  that file, the three manifests and their directories, and no secret template.
\<close>

theorem no_variables_no_secret_template:
  "fst (generate \<lparr>req_app_name = PStr ''orders-api'', req_port = PInt 8080,
                  req_node_port = PInt 30080, req_envs = []\<rparr> (\<lambda>q. None))
     = Success ''generated/orders-api''
   \<and> docker_args (read_lines
        (snd (generate \<lparr>req_app_name = PStr ''orders-api'', req_port = PInt 8080,
                        req_node_port = PInt 30080, req_envs = []\<rparr> (\<lambda>q. None)))
        [''generated'', ''orders-api'', ''Dockerfile'']) = [''PORT'']
   \<and> dom (snd (generate \<lparr>req_app_name = PStr ''orders-api'', req_port = PInt 8080,
                        req_node_port = PInt 30080, req_envs = []\<rparr> (\<lambda>q. None)))
      = {[''generated''], [''generated'', ''orders-api''],
         [''generated'', ''orders-api'', ''k8s''],
         [''generated'', ''orders-api'', ''Dockerfile''],
         [''generated'', ''orders-api'', ''k8s'', ''orders-api.yaml''],
         [''generated'', ''orders-api'', ''k8s'', ''orders-api-service.yaml''],
         [''generated'', ''orders-api'', ''k8s'', ''orders-api-hpa.yaml'']}"
proof -
  have none: "lookup_all ''name'' [] = Inr []" by simp
  have u: "usable_destination (\<lambda>q. None) ''generated/orders-api''"
    by (rule empty_is_usable) (simp_all add: example_destination)
  have s: "CHR ''/'' \<notin> set ''orders-api''" by simp
  have args: "docker_args (read_lines
        (snd (generate_files ''orders-api'' (PInt 8080) (PInt 30080) [] ''generated/orders-api''
                (\<lambda>q. None)))
        [''generated'', ''orders-api'', ''Dockerfile'']) = [''PORT'']"
    using run_reads(1) [OF u none s, of "PInt 8080" "PInt 30080"] docker_args_of_text [of "[]"]
    by (simp add: example_destination)
  show ?thesis
    unfolding example_generate [OF none] fst_conv snd_conv
    by (intro conjI refl args) (simp only: example_run [OF none] snd_conv example_dom)
qed

end
